theory Spec2Isabelle
  imports Main
begin

section \<open>The relational schema (shared/schema.ts)\<close>

text \<open>
  The tables \<open>groups\<close>, \<open>students\<close> and \<open>homework\<close> as lists of rows. A nullable column
  is an \<open>option\<close>; \<open>serial\<close>, \<open>integer\<close> and \<open>bigint\<close> columns are \<open>int\<close>; a
  \<open>timestamp\<close> is an \<open>int\<close> (milliseconds since the epoch). Strings are \<open>string\<close>; the
  Cyrillic literals of the source (roster names, fallback words) are written in Latin
  transliteration, and the reply texts are the constructors of the message datatypes below.
\<close>

datatype access_level = Student | Admin | Monitor | Owner

record groups_row =
  g_id :: int
  groupName :: string
  g_description :: "string option"
  g_createdAt :: "int option"

record students_row =
  s_id :: int
  telegramUserId :: int
  telegramUsername :: "string option"
  studentId :: string
  firstName :: "string option"
  lastName :: "string option"
  s_groupId :: "int option"
  accessLevel :: "access_level option"
  isActive :: "bool option"
  s_createdAt :: "int option"
  s_updatedAt :: "int option"

record homework_row =
  h_id :: int
  title :: string
  description :: "string option"
  dueDate :: "int option"
  subject :: "string option"
  h_groupId :: "int option"
  createdBy :: "int option"
  h_createdAt :: "int option"
  h_updatedAt :: "int option"

text \<open>
  The store: the three tables and the two \<open>serial\<close> sequences the tools draw from.
\<close>

record store =
  groups :: "groups_row list"
  students :: "students_row list"
  homework :: "homework_row list"
  students_id_seq :: int
  homework_id_seq :: int

text \<open>
  What a call finds around it: \<open>process.env.DATABASE_URL\<close>, the clock (\<open>defaultNow()\<close>,
  \<open>new Date()\<close>), and the awaited store round trips of this call that reject, numbered
  from 0 in the order the call reaches them (\<open>client.end()\<close> included).
\<close>

record env =
  DATABASE_URL :: "string option"
  now :: int
  faults :: "nat set"

section \<open>JavaScript truthiness and strings\<close>

definition truthy_str :: "string option \<Rightarrow> bool" where
  "truthy_str v = (case v of None \<Rightarrow> False | Some s \<Rightarrow> s \<noteq> [])"

definition truthy_num :: "int option \<Rightarrow> bool" where
  "truthy_num v = (case v of None \<Rightarrow> False | Some n \<Rightarrow> n \<noteq> 0)"

definition truthy_bool :: "bool option \<Rightarrow> bool" where
  "truthy_bool v = (case v of None \<Rightarrow> False | Some b \<Rightarrow> b)"

text \<open>\<open>a || b\<close> on optional strings and numbers.\<close>

definition or_str :: "string option \<Rightarrow> string option \<Rightarrow> string option" where
  "or_str a b = (if truthy_str a then a else b)"

definition or_number :: "int option \<Rightarrow> int option \<Rightarrow> int option" where
  "or_number a b = (if truthy_num a then a else b)"

text \<open>\<open>a || "literal"\<close>.\<close>

definition str_or :: "string option \<Rightarrow> string \<Rightarrow> string" where
  "str_or a d = (case a of None \<Rightarrow> d | Some s \<Rightarrow> if s = [] then d else s)"

text \<open>\<open>accessLevel || "student"\<close>.\<close>

definition level_or_student :: "access_level option \<Rightarrow> access_level" where
  "level_or_student a = (case a of None \<Rightarrow> Student | Some l \<Rightarrow> l)"

text \<open>
  \<open>String.prototype.toUpperCase\<close> on the ASCII letters; the model's strings are ASCII.
\<close>

definition toUpperCase_char :: "char \<Rightarrow> char" where
  "toUpperCase_char c =
     (case map_of (zip ''abcdefghijklmnopqrstuvwxyz'' ''ABCDEFGHIJKLMNOPQRSTUVWXYZ'') c of
        None \<Rightarrow> c
      | Some C \<Rightarrow> C)"

definition toUpperCase :: "string \<Rightarrow> string" where
  "toUpperCase s = map toUpperCase_char s"

text \<open>The fallback literals, transliterated.\<close>

definition UNKNOWN :: string where
  "UNKNOWN = ''Neizvestno''"

definition NOT_ASSIGNED :: string where
  "NOT_ASSIGNED = ''ne naznachena''"

definition STUDENT_WORD :: string where
  "STUDENT_WORD = ''student''"

section \<open>Store queries\<close>

text \<open>
  Every \<open>select\<close> of the tools is an equality lookup with \<open>limit(1)\<close>: the first matching
  row, as a list of length at most one. A comparison with \<open>NULL\<close> matches no row.
\<close>

definition select_students_by_studentId :: "store \<Rightarrow> string \<Rightarrow> students_row list" where
  "select_students_by_studentId db sid = take 1 (filter (\<lambda>r. studentId r = sid) (students db))"

definition select_students_by_telegramUserId :: "store \<Rightarrow> int \<Rightarrow> students_row list" where
  "select_students_by_telegramUserId db t =
     take 1 (filter (\<lambda>r. telegramUserId r = t) (students db))"

definition select_groups_by_id :: "store \<Rightarrow> int option \<Rightarrow> groups_row list" where
  "select_groups_by_id db g =
     (case g of None \<Rightarrow> [] | Some i \<Rightarrow> take 1 (filter (\<lambda>r. g_id r = i) (groups db)))"

definition select_homework_by_id :: "store \<Rightarrow> int \<Rightarrow> homework_row list" where
  "select_homework_by_id db i = take 1 (filter (\<lambda>r. h_id r = i) (homework db))"

text \<open>
  \<open>groupResult[0]?.groupName || "..."\<close>.
\<close>

definition groupName_or_unknown :: "groups_row list \<Rightarrow> string" where
  "groupName_or_unknown rs =
     (case rs of [] \<Rightarrow> UNKNOWN | r # _ \<Rightarrow> if groupName r = [] then UNKNOWN else groupName r)"

text \<open>
  A foreign key into \<open>groups\<close> or \<open>students\<close>: \<open>NULL\<close> or the id of a row.
\<close>

definition fk_groups :: "store \<Rightarrow> int option \<Rightarrow> bool" where
  "fk_groups db g = (case g of None \<Rightarrow> True | Some i \<Rightarrow> i \<in> g_id ` set (groups db))"

definition fk_students :: "store \<Rightarrow> int option \<Rightarrow> bool" where
  "fk_students db c = (case c of None \<Rightarrow> True | Some i \<Rightarrow> i \<in> s_id ` set (students db))"

text \<open>
  \<open>insert(students).values(...).returning()\<close>: the id comes from the sequence, the two
  timestamps from \<open>defaultNow()\<close>. The insert is rejected (\<open>None\<close>, store untouched) when
  the primary key, one of the two unique columns or the foreign key is violated.
\<close>

record new_student =
  n_telegramUserId :: int
  n_telegramUsername :: "string option"
  n_studentId :: string
  n_firstName :: "string option"
  n_lastName :: "string option"
  n_groupId :: int
  n_accessLevel :: access_level
  n_isActive :: bool

definition insert_student :: "int \<Rightarrow> store \<Rightarrow> new_student \<Rightarrow> (students_row \<times> store) option" where
  "insert_student clock db v =
     (let row = \<lparr> s_id = students_id_seq db,
                  telegramUserId = n_telegramUserId v,
                  telegramUsername = n_telegramUsername v,
                  studentId = n_studentId v,
                  firstName = n_firstName v,
                  lastName = n_lastName v,
                  s_groupId = Some (n_groupId v),
                  accessLevel = Some (n_accessLevel v),
                  isActive = Some (n_isActive v),
                  s_createdAt = Some clock,
                  s_updatedAt = Some clock \<rparr>
      in if s_id row \<in> s_id ` set (students db)
            \<or> telegramUserId row \<in> telegramUserId ` set (students db)
            \<or> studentId row \<in> studentId ` set (students db)
            \<or> \<not> fk_groups db (s_groupId row)
         then None
         else Some (row, db\<lparr> students := students db @ [row],
                             students_id_seq := students_id_seq db + 1 \<rparr>))"

section \<open>Registration (tools/studentRegistration.ts)\<close>

record roster_entry =
  r_groupId :: int
  r_firstName :: "string option"
  r_lastName :: "string option"
  r_accessLevel :: access_level

text \<open>
  The roster literal. Its keys are upper-case, and no property inherited from
  \<open>Object.prototype\<close> has an upper-case name, so the lookup of an upper-cased key is a
  lookup in this table.
\<close>

definition AUTHORIZED_STUDENTS :: "string \<Rightarrow> roster_entry option" where
  "AUTHORIZED_STUDENTS = map_of
     [ (''ST001'', \<lparr> r_groupId = 1, r_firstName = Some ''Ivan'', r_lastName = Some ''Petrov'',
                    r_accessLevel = Student \<rparr>),
       (''ST002'', \<lparr> r_groupId = 1, r_firstName = Some ''Mariya'', r_lastName = Some ''Sidorova'',
                    r_accessLevel = Monitor \<rparr>),
       (''ST003'', \<lparr> r_groupId = 2, r_firstName = Some ''Aleksey'', r_lastName = Some ''Kozlov'',
                    r_accessLevel = Student \<rparr>),
       (''ST004'', \<lparr> r_groupId = 2, r_firstName = Some ''Anna'', r_lastName = Some ''Volkova'',
                    r_accessLevel = Admin \<rparr>),
       (''ST005'', \<lparr> r_groupId = 3, r_firstName = Some ''Dmitriy'', r_lastName = Some ''Novikov'',
                    r_accessLevel = Owner \<rparr>),
       (''ST006'', \<lparr> r_groupId = 3, r_firstName = Some ''Ekaterina'', r_lastName = Some ''Smirnova'',
                    r_accessLevel = Student \<rparr>) ]"

text \<open>
  The reply texts of the registration tool, one constructor per literal or template of
  the source, with the interpolated values as arguments:
  the studentId is not in the authorized list; the connection string is missing; the
  caller is already registered; the studentId is used by another Telegram user; the
  Telegram account is already linked to another studentId; welcome (name, group name);
  the text of the \<open>catch\<close> block.
\<close>

datatype reg_message =
    StudentIdNotAuthorized string
  | RegDbConnectionError
  | AlreadyRegistered
  | StudentIdTaken string
  | TelegramAlreadyLinked string
  | RegistrationWelcome string string
  | RegistrationError

record reg_student =
  rs_id :: int
  rs_studentId :: string
  rs_firstName :: "string option"
  rs_lastName :: "string option"
  rs_groupId :: "int option"
  rs_groupName :: string
  rs_accessLevel :: access_level

record reg_result =
  reg_success :: bool
  reg_student :: "reg_student option"
  reg_message :: reg_message

definition reg_failure :: "reg_message \<Rightarrow> reg_result" where
  "reg_failure m = \<lparr> reg_success = False, reg_student = None, reg_message = m \<rparr>"

definition reg_projection :: "students_row \<Rightarrow> string \<Rightarrow> reg_student" where
  "reg_projection r gname =
     \<lparr> rs_id = s_id r, rs_studentId = studentId r, rs_firstName = firstName r,
       rs_lastName = lastName r, rs_groupId = s_groupId r, rs_groupName = gname,
       rs_accessLevel = level_or_student (accessLevel r) \<rparr>"

text \<open>
  \<open>studentRegistrationTool.execute\<close>. The result and the store after the call. The
  numbered fault points are, in order: the select by studentId (0); then either the
  group select (1) and \<open>client.end()\<close> (2) of the already-registered branch, or
  \<open>client.end()\<close> (1) of the taken branch, or the select by telegramUserId (1) followed
  by \<open>client.end()\<close> (2) of the linked branch, or by the insert (2), the group select
  (3) and \<open>client.end()\<close> (4). Every rejection lands in the \<open>catch\<close> block.
\<close>

definition studentRegistrationTool ::
  "env \<Rightarrow> store \<Rightarrow> int \<Rightarrow> string option \<Rightarrow> string \<Rightarrow> string option \<Rightarrow> string option
     \<Rightarrow> reg_result \<times> store" where
  "studentRegistrationTool e db tgUserId tgUsername sid fName lName =
     (case AUTHORIZED_STUDENTS (toUpperCase sid) of
        None \<Rightarrow> (reg_failure (StudentIdNotAuthorized sid), db)
      | Some authorizedStudent \<Rightarrow>
          if \<not> truthy_str (DATABASE_URL e) then (reg_failure RegDbConnectionError, db)
          else if 0 \<in> faults e then (reg_failure RegistrationError, db)
          else
            (case select_students_by_studentId db (toUpperCase sid) of
               existing # _ \<Rightarrow>
                 if telegramUserId existing = tgUserId then
                   if 1 \<in> faults e \<or> 2 \<in> faults e then (reg_failure RegistrationError, db)
                   else
                     (\<lparr> reg_success = True,
                        reg_student = Some (reg_projection existing
                          (groupName_or_unknown (select_groups_by_id db (s_groupId existing)))),
                        reg_message = AlreadyRegistered \<rparr>, db)
                 else
                   if 1 \<in> faults e then (reg_failure RegistrationError, db)
                   else (reg_failure (StudentIdTaken sid), db)
             | [] \<Rightarrow>
                 if 1 \<in> faults e then (reg_failure RegistrationError, db)
                 else
                   (case select_students_by_telegramUserId db tgUserId of
                      linked # _ \<Rightarrow>
                        if 2 \<in> faults e then (reg_failure RegistrationError, db)
                        else (reg_failure (TelegramAlreadyLinked (studentId linked)), db)
                    | [] \<Rightarrow>
                        if 2 \<in> faults e then (reg_failure RegistrationError, db)
                        else
                          (case insert_student (now e) db
                                  \<lparr> n_telegramUserId = tgUserId,
                                    n_telegramUsername = or_str tgUsername None,
                                    n_studentId = toUpperCase sid,
                                    n_firstName =
                                      or_str fName (or_str (r_firstName authorizedStudent) None),
                                    n_lastName =
                                      or_str lName (or_str (r_lastName authorizedStudent) None),
                                    n_groupId = r_groupId authorizedStudent,
                                    n_accessLevel = r_accessLevel authorizedStudent,
                                    n_isActive = True \<rparr> of
                             None \<Rightarrow> (reg_failure RegistrationError, db)
                           | Some (newStudent, db') \<Rightarrow>
                               if 3 \<in> faults e \<or> 4 \<in> faults e
                               then (reg_failure RegistrationError, db')
                               else
                                 (let gname = groupName_or_unknown
                                        (select_groups_by_id db' (Some (r_groupId authorizedStudent)))
                                  in (\<lparr> reg_success = True,
                                        reg_student = Some (reg_projection newStudent gname),
                                        reg_message = RegistrationWelcome
                                          (str_or (firstName newStudent) STUDENT_WORD) gname \<rparr>,
                                      db'))))))"

section \<open>Verification (tools/studentVerification.ts)\<close>

text \<open>
  The reply texts of the verification tool: the connection string is missing; the user
  is not in the class database; the account is deactivated; welcome (name, group name);
  the text of the outer \<open>catch\<close> block.
\<close>

datatype ver_message =
    VerDbConnectionError
  | UserNotInClass
  | AccountDeactivated
  | VerificationWelcome string string
  | VerificationError

record ver_student =
  vs_id :: int
  vs_studentId :: string
  vs_firstName :: "string option"
  vs_lastName :: "string option"
  vs_groupId :: "int option"
  vs_groupName :: "string option"
  vs_accessLevel :: access_level
  vs_isActive :: bool

record ver_result =
  isVerified :: bool
  ver_student :: "ver_student option"
  ver_message :: ver_message

definition ver_failure :: "ver_message \<Rightarrow> ver_result" where
  "ver_failure m = \<lparr> isVerified = False, ver_student = None, ver_message = m \<rparr>"

text \<open>
  The \<open>groupName\<close> column of the left join of a student row with \<open>groups\<close>: \<open>NULL\<close> when
  no group has the student's \<open>groupId\<close> (\<open>groups.id\<close> is the primary key, so the join
  gives one row per student).
\<close>

definition joined_groupName :: "store \<Rightarrow> int option \<Rightarrow> string option" where
  "joined_groupName db g =
     (case select_groups_by_id db g of [] \<Rightarrow> None | r # _ \<Rightarrow> Some (groupName r))"

text \<open>
  \<open>update(students).set({telegramUsername, updatedAt: new Date()}).where(telegramUserId = t)\<close>.
\<close>

definition update_telegramUsername :: "int \<Rightarrow> store \<Rightarrow> int \<Rightarrow> string \<Rightarrow> store" where
  "update_telegramUsername clock db t u =
     db\<lparr> students :=
          map (\<lambda>r. if telegramUserId r = t
                    then r\<lparr> telegramUsername := Some u, s_updatedAt := Some clock \<rparr>
                    else r)
              (students db) \<rparr>"

text \<open>
  The inner \<open>try\<close> of the tool: it runs when the supplied username is truthy and not
  the stored one; the update is fault point 2 and \<open>updateClient.end()\<close> fault point 3,
  and the inner \<open>catch\<close> only logs.
\<close>

definition refresh_username :: "env \<Rightarrow> store \<Rightarrow> int \<Rightarrow> string option \<Rightarrow> string option \<Rightarrow> store" where
  "refresh_username e db t tgUsername stored =
     (case tgUsername of
        None \<Rightarrow> db
      | Some u \<Rightarrow>
          if u \<noteq> [] \<and> Some u \<noteq> stored
          then (if 2 \<in> faults e then db else update_telegramUsername (now e) db t u)
          else db)"

text \<open>
  The student object of a successful verification, built from the joined row;
  \<open>isActive || true\<close> is always \<open>true\<close>.
\<close>

definition ver_projection :: "store \<Rightarrow> students_row \<Rightarrow> ver_student" where
  "ver_projection db student =
     \<lparr> vs_id = s_id student, vs_studentId = studentId student,
       vs_firstName = firstName student, vs_lastName = lastName student,
       vs_groupId = s_groupId student,
       vs_groupName = joined_groupName db (s_groupId student),
       vs_accessLevel = level_or_student (accessLevel student),
       vs_isActive = (truthy_bool (isActive student) \<or> True) \<rparr>"

text \<open>
  \<open>studentVerificationTool.execute\<close>. Fault points: the joined select (0) and
  \<open>client.end()\<close> (1), both before the result is looked at.
\<close>

definition studentVerificationTool ::
  "env \<Rightarrow> store \<Rightarrow> int \<Rightarrow> string option \<Rightarrow> ver_result \<times> store" where
  "studentVerificationTool e db tgUserId tgUsername =
     (if \<not> truthy_str (DATABASE_URL e) then (ver_failure VerDbConnectionError, db)
      else if 0 \<in> faults e \<or> 1 \<in> faults e then (ver_failure VerificationError, db)
      else
        (case select_students_by_telegramUserId db tgUserId of
           [] \<Rightarrow> (ver_failure UserNotInClass, db)
         | student # _ \<Rightarrow>
             if \<not> truthy_bool (isActive student) then (ver_failure AccountDeactivated, db)
             else
               (\<lparr> isVerified = True,
                  ver_student = Some (ver_projection db student),
                  ver_message = VerificationWelcome
                    (str_or (or_str (firstName student) tgUsername) STUDENT_WORD)
                    (str_or (joined_groupName db (s_groupId student)) NOT_ASSIGNED) \<rparr>,
                refresh_username e db tgUserId tgUsername (telegramUsername student))))"

section \<open>Homework (tools/homeworkManagement.ts)\<close>

text \<open>
  The reply texts of the three homework tools: the connection string is missing; the
  user is not in the database; no right to add; the group could not be determined; the
  group was not found; added (title, group name); the \<open>catch\<close> text of Add; the group
  is undefined; n items found; nothing found; the \<open>catch\<close> text of View; no right to
  delete; the homework was not found; deleted (title); the \<open>catch\<close> text of Delete.
\<close>

datatype hw_message =
    HwDbConnectionError
  | UserNotFound
  | NoRightToAdd
  | GroupNotDetermined
  | GroupNotFound
  | HomeworkAdded string string
  | AddError
  | GroupUndefined
  | HomeworkFound nat
  | NoHomeworkFound
  | ViewError
  | NoRightToDelete
  | HomeworkNotFound
  | HomeworkDeleted string
  | DeleteError

text \<open>
  \<open>['monitor', 'admin', 'owner'].includes(accessLevel || 'student')\<close> and
  \<open>['admin', 'owner'].includes(accessLevel || 'student')\<close>.
\<close>

definition hasPermission :: "access_level option \<Rightarrow> bool" where
  "hasPermission a = (level_or_student a \<in> {Monitor, Admin, Owner})"

definition isAdmin :: "access_level option \<Rightarrow> bool" where
  "isAdmin a = (level_or_student a \<in> {Admin, Owner})"

record new_homework =
  nh_title :: string
  nh_description :: "string option"
  nh_subject :: "string option"
  nh_dueDate :: "int option"
  nh_groupId :: int
  nh_createdBy :: int

text \<open>
  \<open>insert(homework).values(...).returning()\<close>, rejected when the primary key or one of
  the two foreign keys is violated.
\<close>

definition insert_homework :: "int \<Rightarrow> store \<Rightarrow> new_homework \<Rightarrow> (homework_row \<times> store) option" where
  "insert_homework clock db v =
     (let row = \<lparr> h_id = homework_id_seq db,
                  title = nh_title v,
                  description = nh_description v,
                  dueDate = nh_dueDate v,
                  subject = nh_subject v,
                  h_groupId = Some (nh_groupId v),
                  createdBy = Some (nh_createdBy v),
                  h_createdAt = Some clock,
                  h_updatedAt = Some clock \<rparr>
      in if h_id row \<in> h_id ` set (homework db)
            \<or> \<not> fk_groups db (h_groupId row)
            \<or> \<not> fk_students db (createdBy row)
         then None
         else Some (row, db\<lparr> homework := homework db @ [row],
                             homework_id_seq := homework_id_seq db + 1 \<rparr>))"

text \<open>
  The due date of Add. \<open>new Date(s)\<close> is the platform's parser, a parameter here:
  \<open>None\<close> is the invalid date, whose \<open>getTime()\<close> is \<open>NaN\<close>. The constructor does not
  throw on a string, so the \<open>catch\<close> around it is never entered.
\<close>

definition parsedDueDate :: "(string \<Rightarrow> int option) \<Rightarrow> string option \<Rightarrow> int option" where
  "parsedDueDate newDate d =
     (case d of None \<Rightarrow> None | Some s \<Rightarrow> if s = [] then None else newDate s)"

record added_homework =
  ah_id :: int
  ah_title :: string
  ah_description :: "string option"
  ah_subject :: "string option"
  ah_dueDate :: "int option"
  ah_groupName :: string

record add_result =
  add_success :: bool
  add_homework :: "added_homework option"
  add_message :: hw_message

definition add_failure :: "hw_message \<Rightarrow> add_result" where
  "add_failure m = \<lparr> add_success = False, add_homework = None, add_message = m \<rparr>"

text \<open>
  \<open>addHomeworkTool.execute\<close>. Fault points: the creator select (0); \<open>client.end()\<close> (1)
  of each early return after it; else the group select (1); then \<open>client.end()\<close> (2)
  of the group-not-found return, or the insert (2) and \<open>client.end()\<close> (3).
\<close>

definition addHomeworkTool ::
  "(string \<Rightarrow> int option) \<Rightarrow> env \<Rightarrow> store \<Rightarrow> int \<Rightarrow> string \<Rightarrow> string option \<Rightarrow> string option
     \<Rightarrow> string option \<Rightarrow> int option \<Rightarrow> add_result \<times> store" where
  "addHomeworkTool newDate e db createdByTelegramId ttl descr subj due groupId =
     (if \<not> truthy_str (DATABASE_URL e) then (add_failure HwDbConnectionError, db)
      else if 0 \<in> faults e then (add_failure AddError, db)
      else
        (case select_students_by_telegramUserId db createdByTelegramId of
           [] \<Rightarrow>
             if 1 \<in> faults e then (add_failure AddError, db)
             else (add_failure UserNotFound, db)
         | creatorData # _ \<Rightarrow>
             if \<not> hasPermission (accessLevel creatorData) then
               if 1 \<in> faults e then (add_failure AddError, db)
               else (add_failure NoRightToAdd, db)
             else
               (case or_number groupId (s_groupId creatorData) of
                  None \<Rightarrow>
                    if 1 \<in> faults e then (add_failure AddError, db)
                    else (add_failure GroupNotDetermined, db)
                | Some targetGroupId \<Rightarrow>
                    if targetGroupId = 0 then
                      if 1 \<in> faults e then (add_failure AddError, db)
                      else (add_failure GroupNotDetermined, db)
                    else if 1 \<in> faults e then (add_failure AddError, db)
                    else
                      (case select_groups_by_id db (Some targetGroupId) of
                         [] \<Rightarrow>
                           if 2 \<in> faults e then (add_failure AddError, db)
                           else (add_failure GroupNotFound, db)
                       | groupRow # _ \<Rightarrow>
                           if 2 \<in> faults e then (add_failure AddError, db)
                           else
                             (case insert_homework (now e) db
                                     \<lparr> nh_title = ttl,
                                       nh_description = or_str descr None,
                                       nh_subject = or_str subj None,
                                       nh_dueDate = parsedDueDate newDate due,
                                       nh_groupId = targetGroupId,
                                       nh_createdBy = s_id creatorData \<rparr> of
                                None \<Rightarrow> (add_failure AddError, db)
                              | Some (created, db') \<Rightarrow>
                                  if 3 \<in> faults e then (add_failure AddError, db')
                                  else
                                    (\<lparr> add_success = True,
                                       add_homework = Some
                                         \<lparr> ah_id = h_id created, ah_title = title created,
                                           ah_description = description created,
                                           ah_subject = subject created,
                                           ah_dueDate = dueDate created,
                                           ah_groupName = groupName groupRow \<rparr>,
                                       add_message = HomeworkAdded ttl (groupName groupRow) \<rparr>,
                                     db'))))))"

text \<open>
  \<open>orderBy(desc(homework.createdAt))\<close>: newest first, \<open>NULL\<close> before every timestamp;
  rows with equal \<open>createdAt\<close> keep the order of the table.
\<close>

definition newer_or_equal :: "homework_row \<Rightarrow> homework_row \<Rightarrow> bool" where
  "newer_or_equal a b =
     (case h_createdAt a of
        None \<Rightarrow> True
      | Some x \<Rightarrow> (case h_createdAt b of None \<Rightarrow> False | Some y \<Rightarrow> y \<le> x))"

fun insert_desc :: "homework_row \<Rightarrow> homework_row list \<Rightarrow> homework_row list" where
  "insert_desc x [] = [x]"
| "insert_desc x (y # ys) = (if newer_or_equal x y then x # y # ys else y # insert_desc x ys)"

definition order_by_createdAt_desc :: "homework_row list \<Rightarrow> homework_row list" where
  "order_by_createdAt_desc rows = foldr insert_desc rows []"

text \<open>\<open>String.prototype.trim\<close> on ASCII white space.\<close>

definition is_space :: "char \<Rightarrow> bool" where
  "is_space c = (c \<in> set [CHR 0x09, CHR 0x0A, CHR 0x0B, CHR 0x0C, CHR 0x0D, CHR '' ''])"

definition trim :: "string \<Rightarrow> string" where
  "trim s = rev (dropWhile is_space (rev (dropWhile is_space s)))"

record viewed_homework =
  vh_id :: int
  vh_title :: string
  vh_description :: "string option"
  vh_subject :: "string option"
  vh_dueDate :: "int option"
  vh_groupName :: string
  vh_creatorName :: "string option"
  vh_createdAt :: "int option"

text \<open>
  One row of the View query, homework left-joined with its group and with its creator
  (\<open>students.id\<close> is the primary key, so the join gives one row per homework), mapped
  to the output item. The creator's name is the first name, a space and the last name,
  trimmed, or \<open>null\<close> without a first name; an absent \<open>createdAt\<close> stands for the empty
  string of the source.
\<close>

definition select_students_by_id :: "store \<Rightarrow> int option \<Rightarrow> students_row list" where
  "select_students_by_id db c =
     (case c of None \<Rightarrow> [] | Some i \<Rightarrow> take 1 (filter (\<lambda>r. s_id r = i) (students db)))"

definition creatorName :: "students_row list \<Rightarrow> string option" where
  "creatorName creator =
     (case creator of
        [] \<Rightarrow> None
      | r # _ \<Rightarrow>
          if truthy_str (firstName r)
          then Some (trim (str_or (firstName r) [] @ '' '' @ str_or (lastName r) []))
          else None)"

definition view_item :: "store \<Rightarrow> homework_row \<Rightarrow> viewed_homework" where
  "view_item db hw =
     \<lparr> vh_id = h_id hw, vh_title = title hw, vh_description = description hw,
       vh_subject = subject hw, vh_dueDate = dueDate hw,
       vh_groupName = str_or (joined_groupName db (h_groupId hw)) UNKNOWN,
       vh_creatorName = creatorName (select_students_by_id db (createdBy hw)),
       vh_createdAt = h_createdAt hw \<rparr>"

text \<open>
  The rows View fetches for a target group: those of the group, newest first, at most
  \<open>limit\<close> of them. The query builder emits a \<open>LIMIT\<close> clause only for a limit that is
  not negative, so a negative limit fetches every row of the group.
\<close>

definition fetch_homework :: "store \<Rightarrow> int \<Rightarrow> int \<Rightarrow> homework_row list" where
  "fetch_homework db targetGroupId lim =
     (let rows = order_by_createdAt_desc
                   (filter (\<lambda>h. h_groupId h = Some targetGroupId) (homework db))
      in if lim < 0 then rows else take (nat lim) rows)"

record view_result =
  view_success :: bool
  homeworkList :: "viewed_homework list"
  view_message :: hw_message

definition view_failure :: "hw_message \<Rightarrow> view_result" where
  "view_failure m = \<lparr> view_success = False, homeworkList = [], view_message = m \<rparr>"

text \<open>
  The group View reads: the requested one for an admin or owner who names a truthy
  \<open>groupId\<close>, otherwise the caller's own (\<open>userData.groupId || undefined\<close>).
\<close>

definition view_targetGroupId :: "students_row \<Rightarrow> int option \<Rightarrow> int option" where
  "view_targetGroupId userData groupId =
     (if \<not> isAdmin (accessLevel userData) \<or> \<not> truthy_num groupId
      then or_number (s_groupId userData) None
      else groupId)"

text \<open>
  \<open>viewHomeworkTool.execute\<close>; \<open>lim\<close> is the limit after the schema's default. Fault
  points: the user select (0); \<open>client.end()\<close> (1) of each early return; else the
  fetch (1) and \<open>client.end()\<close> (2). The store is only read.
\<close>

definition viewHomeworkTool :: "env \<Rightarrow> store \<Rightarrow> int \<Rightarrow> int option \<Rightarrow> int \<Rightarrow> view_result" where
  "viewHomeworkTool e db tgUserId groupId lim =
     (if \<not> truthy_str (DATABASE_URL e) then view_failure HwDbConnectionError
      else if 0 \<in> faults e then view_failure ViewError
      else
        (case select_students_by_telegramUserId db tgUserId of
           [] \<Rightarrow>
             if 1 \<in> faults e then view_failure ViewError else view_failure UserNotFound
         | userData # _ \<Rightarrow>
             (case view_targetGroupId userData groupId of
                None \<Rightarrow>
                  if 1 \<in> faults e then view_failure ViewError else view_failure GroupUndefined
              | Some targetGroupId \<Rightarrow>
                  if targetGroupId = 0 then
                    if 1 \<in> faults e then view_failure ViewError else view_failure GroupUndefined
                  else if 1 \<in> faults e \<or> 2 \<in> faults e then view_failure ViewError
                  else
                    (let items = map (view_item db) (fetch_homework db targetGroupId lim)
                     in \<lparr> view_success = True, homeworkList = items,
                          view_message = (if 0 < length items then HomeworkFound (length items)
                                          else NoHomeworkFound) \<rparr>))))"

record delete_result =
  del_success :: bool
  del_message :: hw_message

definition delete_failure :: "hw_message \<Rightarrow> delete_result" where
  "delete_failure m = \<lparr> del_success = False, del_message = m \<rparr>"

text \<open>\<open>delete(homework).where(eq(homework.id, homeworkId))\<close>.\<close>

definition delete_homework :: "store \<Rightarrow> int \<Rightarrow> store" where
  "delete_homework db i = db\<lparr> homework := filter (\<lambda>h. h_id h \<noteq> i) (homework db) \<rparr>"

text \<open>
  \<open>deleteHomeworkTool.execute\<close>. Fault points: the user select (0); \<open>client.end()\<close> (1)
  of the two early returns; else the homework select (1); then \<open>client.end()\<close> (2) of
  the not-found return, or the delete (2) and \<open>client.end()\<close> (3).
\<close>

definition deleteHomeworkTool :: "env \<Rightarrow> store \<Rightarrow> int \<Rightarrow> int \<Rightarrow> delete_result \<times> store" where
  "deleteHomeworkTool e db tgUserId homeworkId =
     (if \<not> truthy_str (DATABASE_URL e) then (delete_failure HwDbConnectionError, db)
      else if 0 \<in> faults e then (delete_failure DeleteError, db)
      else
        (case select_students_by_telegramUserId db tgUserId of
           [] \<Rightarrow>
             if 1 \<in> faults e then (delete_failure DeleteError, db)
             else (delete_failure UserNotFound, db)
         | userData # _ \<Rightarrow>
             if \<not> hasPermission (accessLevel userData) then
               if 1 \<in> faults e then (delete_failure DeleteError, db)
               else (delete_failure NoRightToDelete, db)
             else if 1 \<in> faults e then (delete_failure DeleteError, db)
             else
               (case select_homework_by_id db homeworkId of
                  [] \<Rightarrow>
                    if 2 \<in> faults e then (delete_failure DeleteError, db)
                    else (delete_failure HomeworkNotFound, db)
                | existingHomework # _ \<Rightarrow>
                    if 2 \<in> faults e then (delete_failure DeleteError, db)
                    else if 3 \<in> faults e
                    then (delete_failure DeleteError, delete_homework db homeworkId)
                    else
                      (\<lparr> del_success = True,
                         del_message = HomeworkDeleted (title existingHomework) \<rparr>,
                       delete_homework db homeworkId))))"

section \<open>Stores that differ in the activity flag only\<close>

text \<open>
  The store with the \<open>isActive\<close> column of every student row rewritten by \<open>f\<close>; used to
  say that an operation does not read the column.
\<close>

definition with_isActive :: "(students_row \<Rightarrow> bool option) \<Rightarrow> store \<Rightarrow> store" where
  "with_isActive f db = db\<lparr> students := map (\<lambda>r. r\<lparr> isActive := f r \<rparr>) (students db) \<rparr>"

section \<open>A small classroom\<close>

text \<open>
  A concrete environment and store on which the tools are run below: two groups, an
  active monitor and an active student of group 1, a deactivated admin of group 2, and
  one homework row in each group.
\<close>

definition demo_env :: env where
  "demo_env = \<lparr> DATABASE_URL = Some ''postgres://classroom'', now = 1000, faults = {} \<rparr>"

definition demo_monitor :: students_row where
  "demo_monitor =
     \<lparr> s_id = 1, telegramUserId = 101, telegramUsername = Some ''masha'',
       studentId = ''ST002'', firstName = Some ''Mariya'', lastName = Some ''Sidorova'',
       s_groupId = Some 1, accessLevel = Some Monitor, isActive = Some True,
       s_createdAt = Some 20, s_updatedAt = Some 20 \<rparr>"

definition demo_student :: students_row where
  "demo_student =
     \<lparr> s_id = 2, telegramUserId = 102, telegramUsername = None,
       studentId = ''ST001'', firstName = Some ''Ivan'', lastName = Some ''Petrov'',
       s_groupId = Some 1, accessLevel = Some Student, isActive = Some True,
       s_createdAt = Some 30, s_updatedAt = Some 30 \<rparr>"

definition demo_admin :: students_row where
  "demo_admin =
     \<lparr> s_id = 3, telegramUserId = 103, telegramUsername = Some ''anna'',
       studentId = ''ST004'', firstName = Some ''Anna'', lastName = Some ''Volkova'',
       s_groupId = Some 2, accessLevel = Some Admin, isActive = Some False,
       s_createdAt = Some 40, s_updatedAt = Some 40 \<rparr>"

definition demo_essay :: homework_row where
  "demo_essay =
     \<lparr> h_id = 1, title = ''Essay'', description = None, dueDate = None,
       subject = Some ''History'', h_groupId = Some 2, createdBy = Some 3,
       h_createdAt = Some 500, h_updatedAt = Some 500 \<rparr>"

definition demo_lab :: homework_row where
  "demo_lab =
     \<lparr> h_id = 2, title = ''Lab 1'', description = None, dueDate = Some 900,
       subject = Some ''Physics'', h_groupId = Some 1, createdBy = Some 1,
       h_createdAt = Some 600, h_updatedAt = Some 600 \<rparr>"

definition demo_store :: store where
  "demo_store =
     \<lparr> groups =
         [ \<lparr> g_id = 1, groupName = ''Group 1'', g_description = None, g_createdAt = Some 10 \<rparr>,
           \<lparr> g_id = 2, groupName = ''Group 2'', g_description = None, g_createdAt = Some 10 \<rparr> ],
       students = [demo_monitor, demo_student, demo_admin],
       homework = [demo_essay, demo_lab],
       students_id_seq = 4,
       homework_id_seq = 3 \<rparr>"

text \<open>A date parser that knows one date and rejects everything else.\<close>

definition demo_newDate :: "string \<Rightarrow> int option" where
  "demo_newDate s = (if s = ''2025-01-01'' then Some 1735689600000 else None)"

section \<open>Unfolding the model on concrete inputs\<close>

text \<open>
  The definitions collected for running the tools on the small classroom, and the facts
  about equality lookups with \<open>limit(1)\<close> that the proofs below use.
\<close>

lemmas js_defs = truthy_str_def truthy_num_def truthy_bool_def or_str_def or_number_def str_or_def
  level_or_student_def toUpperCase_def toUpperCase_char_def UNKNOWN_def NOT_ASSIGNED_def
  STUDENT_WORD_def

lemmas query_defs = select_students_by_studentId_def select_students_by_telegramUserId_def
  select_groups_by_id_def select_homework_by_id_def groupName_or_unknown_def fk_groups_def
  fk_students_def joined_groupName_def

lemmas demo_defs = demo_env_def demo_store_def demo_newDate_def demo_monitor_def demo_student_def
  demo_admin_def demo_essay_def demo_lab_def

lemmas tool_defs = studentRegistrationTool_def studentVerificationTool_def addHomeworkTool_def
  viewHomeworkTool_def deleteHomeworkTool_def reg_failure_def reg_projection_def ver_failure_def
  ver_projection_def add_failure_def view_failure_def delete_failure_def insert_student_def
  insert_homework_def delete_homework_def update_telegramUsername_def refresh_username_def
  parsedDueDate_def hasPermission_def isAdmin_def view_targetGroupId_def fetch_homework_def
  order_by_createdAt_desc_def newer_or_equal_def view_item_def creatorName_def
  select_students_by_id_def trim_def is_space_def AUTHORIZED_STUDENTS_def with_isActive_def

lemmas eval_defs = tool_defs js_defs query_defs demo_defs Let_def

lemma take1_Nil: "take 1 xs = [] \<longleftrightarrow> xs = []"
  by (cases xs) simp_all

lemma take1_rest: "take 1 xs = x # rest \<Longrightarrow> rest = []"
  by (cases xs) simp_all

lemma take1_filter_member: "take 1 (filter P xs) = x # rest \<Longrightarrow> x \<in> set xs \<and> P x"
proof -
  assume "take 1 (filter P xs) = x # rest"
  then have "x \<in> set (take 1 (filter P xs))" by simp
  then have "x \<in> set (filter P xs)" by (rule in_set_takeD)
  then show ?thesis by simp
qed

lemma take1_filter_unique:
  "distinct (map k xs) \<Longrightarrow> x \<in> set xs \<Longrightarrow> take 1 (filter (\<lambda>r. k r = k x) xs) = [x]"
proof (induction xs)
  case Nil
  then show ?case by simp
next
  case (Cons y ys)
  show ?case
  proof (cases "k y = k x")
    case True
    with Cons.prems have "y = x" by (auto simp: image_iff)
    with True show ?thesis by simp
  next
    case False
    with Cons show ?thesis by auto
  qed
qed

lemma take1_filter_nonempty:
  "i \<in> k ` set xs \<Longrightarrow> take 1 (filter (\<lambda>r. k r = i) xs) \<noteq> []"
  by (auto simp: take1_Nil filter_empty_conv)

lemma select_by_telegramUserId_unique:
  "distinct (map telegramUserId (students db)) \<Longrightarrow> s \<in> set (students db) \<Longrightarrow>
   select_students_by_telegramUserId db (telegramUserId s) = [s]"
  unfolding select_students_by_telegramUserId_def by (rule take1_filter_unique)

lemma demo_students_unique: "distinct (map telegramUserId (students demo_store))"
  by (simp add: demo_defs)

section \<open>The unique columns stay unique\<close>

text \<open>
  The theorems below take the \<open>unique\<close> constraint on \<open>students.telegramUserId\<close> as a
  hypothesis on the store. Registration, the only tool that inserts student rows, and
  verification, the only tool that updates them, preserve it together with the other two
  unique columns; the homework tools do not write to \<open>students\<close>.
\<close>

lemma registration_keeps_unique:
  assumes "distinct (map telegramUserId (students db))"
    and "distinct (map studentId (students db))"
    and "distinct (map s_id (students db))"
    and "studentRegistrationTool e db t u sid f l = (r, db')"
  shows "distinct (map telegramUserId (students db'))
         \<and> distinct (map studentId (students db'))
         \<and> distinct (map s_id (students db'))"
proof (cases "students db' = students db")
  case True
  with assms show ?thesis by simp
next
  case False
  with assms(4) obtain v row where "insert_student (now e) db v = Some (row, db')"
    by (auto simp: studentRegistrationTool_def Let_def
             split: option.splits if_splits list.splits)
  with assms(1-3) show ?thesis
    by (auto simp: insert_student_def Let_def split: if_splits)
qed

lemma verification_keeps_unique:
  assumes "studentVerificationTool e db t u = (r, db')"
  shows "map telegramUserId (students db') = map telegramUserId (students db)
         \<and> map studentId (students db') = map studentId (students db)
         \<and> map s_id (students db') = map s_id (students db)"
proof -
  have upd: "map telegramUserId (students (update_telegramUsername c db t h))
                    = map telegramUserId (students db)"
      "map studentId (students (update_telegramUsername c db t h)) = map studentId (students db)"
      "map s_id (students (update_telegramUsername c db t h)) = map s_id (students db)" for c h
    by (simp_all add: update_telegramUsername_def o_def if_distrib cong: if_cong)
  from assms show ?thesis
    by (auto simp: studentVerificationTool_def refresh_username_def upd
             split: if_splits list.splits option.splits)
qed

section \<open>Properties of registration\<close>

text \<open>
  C6. A studentId whose upper-cased form is not a key of the roster is refused before
  anything else happens: whatever the environment (connection string present or not, any
  store round trip failing) and whatever the store holds, the call returns
  \<open>success = false\<close>, no student and the not-authorized text naming the studentId as
  typed, and the store is the one it was given. The result does not depend on the
  environment or on the store, so the store is not consulted.
\<close>

theorem registration_unauthorized:
  assumes "AUTHORIZED_STUDENTS (toUpperCase sid) = None"
  shows "studentRegistrationTool e db t u sid f l = (reg_failure (StudentIdNotAuthorized sid), db)"
  using assms by (simp add: studentRegistrationTool_def)

theorem registration_unauthorized_witness:
  "AUTHORIZED_STUDENTS (toUpperCase ''st999'') = None
   \<and> studentRegistrationTool (demo_env\<lparr> DATABASE_URL := None, faults := {0} \<rparr>) demo_store 104
        (Some ''alex'') ''st999'' None None
     = (reg_failure (StudentIdNotAuthorized ''st999''), demo_store)"
proof -
  have h: "AUTHORIZED_STUDENTS (toUpperCase ''st999'') = None"
    by (simp add: AUTHORIZED_STUDENTS_def js_defs)
  from h registration_unauthorized[OF h] show ?thesis by simp
qed

text \<open>
  A successful registration, fresh or repeated, leaves the store with a first row for
  the upper-cased studentId that is bound to the caller, and returns that row's
  projection.
\<close>

lemma insert_student_Some:
  assumes "insert_student c db v = Some (row, db')"
  shows "students db' = students db @ [row]" and "groups db' = groups db"
    and "homework db' = homework db" and "telegramUserId row = n_telegramUserId v"
    and "studentId row = n_studentId v" and "s_groupId row = Some (n_groupId v)"
  using assms by (auto simp: insert_student_def Let_def split: if_splits)

lemma registration_success_binds:
  assumes run: "studentRegistrationTool e db t u sid f l = (r, db1)" and ok: "reg_success r"
  shows "\<exists>row. select_students_by_studentId db1 (toUpperCase sid) = [row]
           \<and> row \<in> set (students db1)
           \<and> telegramUserId row = t
           \<and> studentId row = toUpperCase sid
           \<and> AUTHORIZED_STUDENTS (toUpperCase sid) \<noteq> None
           \<and> reg_student r = Some (reg_projection row
                 (groupName_or_unknown (select_groups_by_id db1 (s_groupId row))))"
proof (cases "select_students_by_studentId db (toUpperCase sid)")
  case (Cons existing rest)
  from Cons have "rest = []"
    unfolding select_students_by_studentId_def by (rule take1_rest)
  with Cons have one: "select_students_by_studentId db (toUpperCase sid) = [existing]"
    by simp
  from Cons have "existing \<in> set (students db)" "studentId existing = toUpperCase sid"
    using take1_filter_member[of "\<lambda>r. studentId r = toUpperCase sid" "students db" existing rest]
    by (simp_all add: select_students_by_studentId_def)
  with run ok Cons one show ?thesis
    by (auto simp: studentRegistrationTool_def reg_failure_def
             split: option.splits if_splits)
next
  case Nil
  from run ok Nil obtain a new where
    a: "AUTHORIZED_STUDENTS (toUpperCase sid) = Some a"
    and ins: "insert_student (now e) db
       \<lparr> n_telegramUserId = t, n_telegramUsername = or_str u None,
         n_studentId = toUpperCase sid,
         n_firstName = or_str f (or_str (r_firstName a) None),
         n_lastName = or_str l (or_str (r_lastName a) None),
         n_groupId = r_groupId a, n_accessLevel = r_accessLevel a,
         n_isActive = True \<rparr> = Some (new, db1)"
    and r: "reg_student r = Some (reg_projection new
              (groupName_or_unknown (select_groups_by_id db1 (Some (r_groupId a)))))"
    by (auto simp: studentRegistrationTool_def reg_failure_def Let_def
             split: option.splits if_splits list.splits)
  from Nil have none: "filter (\<lambda>r. studentId r = toUpperCase sid) (students db) = []"
    by (simp add: select_students_by_studentId_def take1_Nil)
  have new: "select_students_by_studentId db1 (toUpperCase sid) = [new]"
    using insert_student_Some(1,5)[OF ins] none
    by (simp add: select_students_by_studentId_def)
  have mem: "new \<in> set (students db1)"
    using insert_student_Some(1)[OF ins] by simp
  from a r new mem insert_student_Some(4,5,6)[OF ins] show ?thesis by simp
qed

text \<open>
  C1. Registration is idempotent. Whenever a call by \<open>t\<close> with \<open>sid\<close> has returned
  \<open>success = true\<close> and left the store \<open>db1\<close>, the store \<open>db1\<close> holds a student row bound
  to the pair (its \<open>telegramUserId\<close> is \<open>t\<close>, its \<open>studentId\<close> the upper-cased \<open>sid\<close>, and it
  is the row the lookup by studentId finds), and the first call returned the projection
  of that row. A second call by the same \<open>t\<close> with the same \<open>sid\<close> (any username and
  names) on \<open>db1\<close>, with the connection string set and none of its three store round trips
  failing, returns \<open>success = true\<close>, the projection of that same stored row (id,
  studentId, names, groupId, group name, accessLevel) and the "already registered" text,
  which is the first call's result with only the text replaced, and the store unchanged,
  so no row is inserted.
\<close>

theorem registration_idempotent:
  assumes first: "studentRegistrationTool e1 db t u1 sid f1 l1 = (r1, db1)"
    and ok: "reg_success r1"
    and url: "truthy_str (DATABASE_URL e2)"
    and nofault: "faults e2 \<inter> {0, 1, 2} = {}"
  shows "studentRegistrationTool e2 db1 t u2 sid f2 l2
           = (r1\<lparr> reg_message := AlreadyRegistered \<rparr>, db1)
         \<and> (\<exists>row \<in> set (students db1).
               telegramUserId row = t \<and> studentId row = toUpperCase sid
               \<and> select_students_by_studentId db1 (toUpperCase sid) = [row]
               \<and> reg_student r1 = Some (reg_projection row
                    (groupName_or_unknown (select_groups_by_id db1 (s_groupId row))))
               \<and> studentRegistrationTool e2 db1 t u2 sid f2 l2
                   = (\<lparr> reg_success = True,
                        reg_student = Some (reg_projection row
                          (groupName_or_unknown (select_groups_by_id db1 (s_groupId row)))),
                        reg_message = AlreadyRegistered \<rparr>, db1))"
proof -
  from registration_success_binds[OF first ok] obtain row where
    sel: "select_students_by_studentId db1 (toUpperCase sid) = [row]"
    and mem: "row \<in> set (students db1)"
    and t: "telegramUserId row = t"
    and s: "studentId row = toUpperCase sid"
    and a: "AUTHORIZED_STUDENTS (toUpperCase sid) \<noteq> None"
    and st: "reg_student r1 = Some (reg_projection row
                 (groupName_or_unknown (select_groups_by_id db1 (s_groupId row))))"
    by blast
  from nofault have nf: "0 \<notin> faults e2" "1 \<notin> faults e2" "2 \<notin> faults e2" by auto
  have second: "studentRegistrationTool e2 db1 t u2 sid f2 l2
                  = (\<lparr> reg_success = True,
                       reg_student = Some (reg_projection row
                         (groupName_or_unknown (select_groups_by_id db1 (s_groupId row)))),
                       reg_message = AlreadyRegistered \<rparr>, db1)"
    using sel t a url nf by (auto simp: studentRegistrationTool_def)
  have same: "r1\<lparr> reg_message := AlreadyRegistered \<rparr> =
        \<lparr> reg_success = True,
          reg_student = Some (reg_projection row
                 (groupName_or_unknown (select_groups_by_id db1 (s_groupId row)))),
          reg_message = AlreadyRegistered \<rparr>"
    using ok st by simp
  from second same have eq: "studentRegistrationTool e2 db1 t u2 sid f2 l2
           = (r1\<lparr> reg_message := AlreadyRegistered \<rparr>, db1)"
    by simp
  from mem t s sel st second have "\<exists>row \<in> set (students db1).
               telegramUserId row = t \<and> studentId row = toUpperCase sid
               \<and> select_students_by_studentId db1 (toUpperCase sid) = [row]
               \<and> reg_student r1 = Some (reg_projection row
                    (groupName_or_unknown (select_groups_by_id db1 (s_groupId row))))
               \<and> studentRegistrationTool e2 db1 t u2 sid f2 l2
                   = (\<lparr> reg_success = True,
                        reg_student = Some (reg_projection row
                          (groupName_or_unknown (select_groups_by_id db1 (s_groupId row)))),
                        reg_message = AlreadyRegistered \<rparr>, db1)"
    by (intro bexI[of _ row] conjI)
  with eq show ?thesis by (rule conjI)
qed

theorem registration_idempotent_witness:
  "reg_success (fst (studentRegistrationTool demo_env demo_store 104 (Some ''alex'') ''st003''
                       None None))
   \<and> studentRegistrationTool demo_env
        (snd (studentRegistrationTool demo_env demo_store 104 (Some ''alex'') ''st003'' None None))
        104 None ''st003'' None None
     = ((fst (studentRegistrationTool demo_env demo_store 104 (Some ''alex'') ''st003''
                None None))\<lparr> reg_message := AlreadyRegistered \<rparr>,
        snd (studentRegistrationTool demo_env demo_store 104 (Some ''alex'') ''st003'' None None))
   \<and> reg_student (fst (studentRegistrationTool demo_env demo_store 104 (Some ''alex'') ''st003''
                          None None))
     = Some \<lparr> rs_id = 4, rs_studentId = ''ST003'', rs_firstName = Some ''Aleksey'',
              rs_lastName = Some ''Kozlov'', rs_groupId = Some 2, rs_groupName = ''Group 2'',
              rs_accessLevel = Student \<rparr>
   \<and> map s_id (students (snd (studentRegistrationTool demo_env demo_store 104 (Some ''alex'')
                                 ''st003'' None None))) = [1, 2, 3, 4]"
proof -
  have ok: "reg_success (fst (studentRegistrationTool demo_env demo_store 104 (Some ''alex'')
                                ''st003'' None None))"
    by (simp add: eval_defs)
  have url: "truthy_str (DATABASE_URL demo_env)" by (simp add: eval_defs)
  have nf: "faults demo_env \<inter> {0, 1, 2} = {}" by (simp add: demo_env_def)
  have st: "reg_student (fst (studentRegistrationTool demo_env demo_store 104 (Some ''alex'')
                                ''st003'' None None))
     = Some \<lparr> rs_id = 4, rs_studentId = ''ST003'', rs_firstName = Some ''Aleksey'',
              rs_lastName = Some ''Kozlov'', rs_groupId = Some 2, rs_groupName = ''Group 2'',
              rs_accessLevel = Student \<rparr>"
    by (simp add: eval_defs)
  have ids: "map s_id (students (snd (studentRegistrationTool demo_env demo_store 104
                                        (Some ''alex'') ''st003'' None None))) = [1, 2, 3, 4]"
    by (simp add: eval_defs)
  show ?thesis
    by (intro conjI ok st ids
          registration_idempotent[OF surjective_pairing ok url nf, THEN conjunct1])
qed

text \<open>
  C2. A studentId is bound to one identity only. Whenever a call by \<open>t1\<close> with \<open>sid1\<close>
  has returned \<open>success = true\<close> and left the store \<open>db1\<close>, a call on \<open>db1\<close> by a different
  identity \<open>t2\<close> with a studentId of the same upper-cased form fails in every environment
  with \<open>success = false\<close> and no student, and returns \<open>db1\<close> itself: no row is created
  or changed. When the connection string is set and the select and \<open>client.end()\<close> do
  not fail, the text is the one saying the studentId is used by another Telegram user.
\<close>

theorem registration_conflict:
  assumes first: "studentRegistrationTool e1 db t1 u1 sid1 f1 l1 = (r1, db1)"
    and ok: "reg_success r1"
    and other: "t2 \<noteq> t1"
    and same: "toUpperCase sid2 = toUpperCase sid1"
  shows "studentRegistrationTool e2 db1 t2 u2 sid2 f2 l2 =
           (reg_failure (if \<not> truthy_str (DATABASE_URL e2) then RegDbConnectionError
                         else if 0 \<in> faults e2 \<or> 1 \<in> faults e2 then RegistrationError
                         else StudentIdTaken sid2), db1)"
proof -
  from registration_success_binds[OF first ok] obtain row rest where
    sel: "select_students_by_studentId db1 (toUpperCase sid1) = row # rest"
    and t: "telegramUserId row = t1"
    and a: "AUTHORIZED_STUDENTS (toUpperCase sid1) \<noteq> None"
    by blast
  with other same show ?thesis
    by (auto simp: studentRegistrationTool_def)
qed

theorem registration_conflict_witness:
  "reg_success (fst (studentRegistrationTool demo_env demo_store 104 (Some ''alex'') ''st003''
                       None None))
   \<and> (105::int) \<noteq> 104 \<and> toUpperCase ''St003'' = toUpperCase ''st003''
   \<and> studentRegistrationTool demo_env
        (snd (studentRegistrationTool demo_env demo_store 104 (Some ''alex'') ''st003'' None None))
        105 None ''St003'' None None
     = (reg_failure (StudentIdTaken ''St003''),
        snd (studentRegistrationTool demo_env demo_store 104 (Some ''alex'') ''st003'' None None))"
proof -
  have ok: "reg_success (fst (studentRegistrationTool demo_env demo_store 104 (Some ''alex'')
                                ''st003'' None None))"
    by (simp add: eval_defs)
  have other: "(105::int) \<noteq> 104" by simp
  have same: "toUpperCase ''St003'' = toUpperCase ''st003''" by (simp add: js_defs)
  have env: "truthy_str (DATABASE_URL demo_env)" "0 \<notin> faults demo_env" "1 \<notin> faults demo_env"
    by (simp_all add: eval_defs)
  from registration_conflict[OF surjective_pairing ok other same, of demo_env None None None]
    ok other same env
  show ?thesis by simp
qed

section \<open>Properties of verification\<close>

text \<open>
  C3. A deactivated student is never verified. For a store whose \<open>telegramUserId\<close>
  column is unique (as the schema declares) and any of its rows with
  \<open>isActive = false\<close>, whatever the other columns hold, verification with that row's
  \<open>telegramUserId\<close> returns \<open>isVerified = false\<close> and \<open>student = null\<close> in every
  environment and leaves the store unchanged; the text is the deactivation text whenever
  the connection string is set and the select and \<open>client.end()\<close> do not fail.
\<close>

theorem verification_deactivated:
  assumes "s \<in> set (students db)"
    and "distinct (map telegramUserId (students db))"
    and "isActive s = Some False"
  shows "studentVerificationTool e db (telegramUserId s) u =
           (ver_failure (if \<not> truthy_str (DATABASE_URL e) then VerDbConnectionError
                         else if 0 \<in> faults e \<or> 1 \<in> faults e then VerificationError
                         else AccountDeactivated), db)"
  using assms select_by_telegramUserId_unique[of db s]
  by (simp add: studentVerificationTool_def truthy_bool_def)

theorem verification_deactivated_witness:
  "demo_admin \<in> set (students demo_store)
   \<and> distinct (map telegramUserId (students demo_store))
   \<and> isActive demo_admin = Some False
   \<and> studentVerificationTool demo_env demo_store 103 (Some ''anna'')
       = (ver_failure AccountDeactivated, demo_store)"
proof -
  have a: "demo_admin \<in> set (students demo_store)" by (simp add: demo_store_def)
  have b: "distinct (map telegramUserId (students demo_store))" by (simp add: demo_defs)
  have c: "isActive demo_admin = Some False" by (simp add: demo_defs)
  have t: "telegramUserId demo_admin = 103" by (simp add: demo_defs)
  have env: "truthy_str (DATABASE_URL demo_env)" "0 \<notin> faults demo_env" "1 \<notin> faults demo_env"
    by (simp_all add: eval_defs)
  from verification_deactivated[OF a b c, of demo_env "Some ''anna''"] a b c env
  show ?thesis by (simp add: t)
qed

text \<open>
  C9, as the claim states it, fails on the empty handle: \<open>telegramUsername &&\<close> guards
  the update, so a supplied empty string, which differs from the stored handle
  \<open>masha\<close>, verifies the monitor and leaves the stored handle as it was.
\<close>

theorem verification_empty_handle_not_stored:
  "select_students_by_telegramUserId demo_store 101 = [demo_monitor]
   \<and> telegramUsername demo_monitor = Some ''masha''
   \<and> Some [] \<noteq> telegramUsername demo_monitor
   \<and> isVerified (fst (studentVerificationTool demo_env demo_store 101 (Some [])))
   \<and> snd (studentVerificationTool demo_env demo_store 101 (Some [])) = demo_store"
  by (simp add: eval_defs)

lemma update_telegramUsername_select:
  assumes "s \<in> set (students db)" and "distinct (map telegramUserId (students db))"
  shows "select_students_by_telegramUserId
           (update_telegramUsername c db (telegramUserId s) h) (telegramUserId s)
         = [s\<lparr> telegramUsername := Some h, s_updatedAt := Some c \<rparr>]"
proof -
  let ?f = "\<lambda>r. if telegramUserId r = telegramUserId s
                  then r\<lparr> telegramUsername := Some h, s_updatedAt := Some c \<rparr> else r"
  have k: "telegramUserId (?f r) = telegramUserId r" for r by simp
  have "filter (\<lambda>r. telegramUserId r = telegramUserId s) (map ?f (students db))
        = map ?f (filter (\<lambda>r. telegramUserId r = telegramUserId s) (students db))"
    by (simp add: filter_map o_def)
  then have "select_students_by_telegramUserId
           (update_telegramUsername c db (telegramUserId s) h) (telegramUserId s)
        = map ?f (select_students_by_telegramUserId db (telegramUserId s))"
    by (simp add: select_students_by_telegramUserId_def update_telegramUsername_def take_map)
  with select_by_telegramUserId_unique[OF assms(2,1)] show ?thesis by simp
qed

text \<open>
  C9 (amended). For an active student found by a verification call whose select and
  \<open>client.end()\<close> succeed, a supplied handle that is not empty and differs from the
  stored one is written to the student's row together with \<open>updatedAt\<close>, unless the
  update itself fails (fault point 2); in both cases, and whether or not closing the
  update connection fails (fault point 3), the call returns \<open>isVerified = true\<close> with the
  same student projection and the same welcome text: the outcome of the verification
  does not depend on the update. After a successful update the lookup by
  \<open>telegramUserId\<close> gives the row with the new handle.
\<close>

theorem verification_handle_refresh:
  assumes "s \<in> set (students db)"
    and "distinct (map telegramUserId (students db))"
    and "isActive s = Some True"
    and "h \<noteq> []" and "Some h \<noteq> telegramUsername s"
    and "truthy_str (DATABASE_URL e)" and "0 \<notin> faults e" and "1 \<notin> faults e"
  shows "studentVerificationTool e db (telegramUserId s) (Some h) =
           (\<lparr> isVerified = True, ver_student = Some (ver_projection db s),
              ver_message = VerificationWelcome
                (str_or (or_str (firstName s) (Some h)) STUDENT_WORD)
                (str_or (joined_groupName db (s_groupId s)) NOT_ASSIGNED) \<rparr>,
            if 2 \<in> faults e then db
            else update_telegramUsername (now e) db (telegramUserId s) h)
         \<and> select_students_by_telegramUserId
             (update_telegramUsername (now e) db (telegramUserId s) h) (telegramUserId s)
           = [s\<lparr> telegramUsername := Some h, s_updatedAt := Some (now e) \<rparr>]"
proof -
  have sel: "select_students_by_telegramUserId db (telegramUserId s) = [s]"
    using assms(1,2) by (simp add: select_by_telegramUserId_unique)
  from sel assms(3-8) update_telegramUsername_select[OF assms(1,2)] show ?thesis
    by (simp add: studentVerificationTool_def refresh_username_def truthy_bool_def)
qed

theorem verification_handle_refresh_witness:
  "demo_monitor \<in> set (students demo_store) \<and> isActive demo_monitor = Some True
   \<and> ''mariya_s'' \<noteq> [] \<and> Some ''mariya_s'' \<noteq> telegramUsername demo_monitor
   \<and> isVerified (fst (studentVerificationTool (demo_env\<lparr> faults := {2} \<rparr>) demo_store 101
                        (Some ''mariya_s'')))
   \<and> snd (studentVerificationTool (demo_env\<lparr> faults := {2} \<rparr>) demo_store 101
            (Some ''mariya_s'')) = demo_store
   \<and> map telegramUsername
       (students (snd (studentVerificationTool demo_env demo_store 101 (Some ''mariya_s''))))
     = [Some ''mariya_s'', None, Some ''anna'']"
proof -
  have a: "demo_monitor \<in> set (students demo_store)" by (simp add: demo_store_def)
  have c: "isActive demo_monitor = Some True" by (simp add: demo_defs)
  have h: "''mariya_s'' \<noteq> []" by simp
  have d: "Some ''mariya_s'' \<noteq> telegramUsername demo_monitor" by (simp add: demo_defs)
  have url: "truthy_str (DATABASE_URL demo_env)"
    "truthy_str (DATABASE_URL (demo_env\<lparr> faults := {2} \<rparr>))" by (simp_all add: eval_defs)
  have nf: "0 \<notin> faults demo_env" "1 \<notin> faults demo_env"
    "0 \<notin> faults (demo_env\<lparr> faults := {2} \<rparr>)" "1 \<notin> faults (demo_env\<lparr> faults := {2} \<rparr>)"
    by (simp_all add: demo_env_def)
  have t: "telegramUserId demo_monitor = 101" by (simp add: demo_defs)
  have u: "map telegramUsername
             (students (update_telegramUsername (now demo_env) demo_store 101 ''mariya_s''))
           = [Some ''mariya_s'', None, Some ''anna'']"
    by (simp add: update_telegramUsername_def demo_defs)
  have f: "2 \<notin> faults demo_env" by (simp add: demo_env_def)
  from verification_handle_refresh[OF a demo_students_unique c h d url(1) nf(1,2)]
    verification_handle_refresh[OF a demo_students_unique c h d url(2) nf(3,4)]
    a c h d u f
  show ?thesis by (simp add: t)
qed

section \<open>Properties of the homework tools\<close>

text \<open>
  C4, as the claim states it, fails: the three homework tools select the caller's id,
  access level, group and first name, never \<open>isActive\<close>. The deactivated admin of the
  small classroom is refused by verification, yet adds, views and deletes homework.
\<close>

theorem homework_open_to_deactivated:
  "select_students_by_telegramUserId demo_store 103 = [demo_admin]
   \<and> isActive demo_admin = Some False
   \<and> \<not> isVerified (fst (studentVerificationTool demo_env demo_store 103 None))
   \<and> add_success (fst (addHomeworkTool demo_newDate demo_env demo_store 103 ''Quiz'' None None
                         None None))
   \<and> view_success (viewHomeworkTool demo_env demo_store 103 None 10)
   \<and> del_success (fst (deleteHomeworkTool demo_env demo_store 103 2))"
  by (simp add: eval_defs)

text \<open>
  Rewriting the \<open>isActive\<close> column changes no query of the homework tools.
\<close>

lemma select_students_with_isActive:
  "select_students_by_telegramUserId (with_isActive f db) t =
     map (\<lambda>r. r\<lparr> isActive := f r \<rparr>) (select_students_by_telegramUserId db t)"
  by (simp add: select_students_by_telegramUserId_def with_isActive_def filter_map take_map o_def)

lemma select_groups_with_isActive:
  "select_groups_by_id (with_isActive f db) g = select_groups_by_id db g"
  by (simp add: select_groups_by_id_def with_isActive_def split: option.splits)

lemma select_homework_with_isActive:
  "select_homework_by_id (with_isActive f db) i = select_homework_by_id db i"
  by (simp add: select_homework_by_id_def with_isActive_def)

lemma insert_homework_with_isActive:
  "insert_homework c (with_isActive f db) v =
     map_option (\<lambda>(row, db'). (row, with_isActive f db')) (insert_homework c db v)"
  by (simp add: insert_homework_def with_isActive_def fk_groups_def fk_students_def Let_def
        image_image)

lemma delete_homework_with_isActive:
  "delete_homework (with_isActive f db) i = with_isActive f (delete_homework db i)"
  by (simp add: delete_homework_def with_isActive_def)

lemma creatorName_with_isActive:
  "creatorName (select_students_by_id (with_isActive f db) c) =
     creatorName (select_students_by_id db c)"
proof (cases c)
  case None
  then show ?thesis by (simp add: select_students_by_id_def)
next
  case (Some i)
  have "select_students_by_id (with_isActive f db) c =
        map (\<lambda>r. r\<lparr> isActive := f r \<rparr>) (select_students_by_id db c)"
    using Some by (simp add: select_students_by_id_def with_isActive_def filter_map take_map o_def)
  then show ?thesis
    by (cases "select_students_by_id db c") (simp_all add: creatorName_def)
qed

lemma view_item_with_isActive: "view_item (with_isActive f db) hw = view_item db hw"
  by (simp add: view_item_def joined_groupName_def select_groups_with_isActive
        creatorName_with_isActive)

lemma fetch_homework_with_isActive:
  "fetch_homework (with_isActive f db) g lim = fetch_homework db g lim"
  by (simp add: fetch_homework_def with_isActive_def)

lemma add_ignores_isActive:
  "addHomeworkTool nd e (with_isActive f db) t ttl d s due g =
     (case addHomeworkTool nd e db t ttl d s due g of (r, db') \<Rightarrow> (r, with_isActive f db'))"
  by (cases "select_students_by_telegramUserId db t")
     (simp_all add: addHomeworkTool_def select_students_with_isActive select_groups_with_isActive
        insert_homework_with_isActive split: option.splits list.splits)

lemma view_ignores_isActive:
  "viewHomeworkTool e (with_isActive f db) t g lim = viewHomeworkTool e db t g lim"
  by (cases "select_students_by_telegramUserId db t")
     (simp_all add: viewHomeworkTool_def select_students_with_isActive view_targetGroupId_def
        fetch_homework_with_isActive view_item_with_isActive cong: map_cong
        split: option.splits)

lemma delete_ignores_isActive:
  "deleteHomeworkTool e (with_isActive f db) t i =
     (case deleteHomeworkTool e db t i of (r, db') \<Rightarrow> (r, with_isActive f db'))"
  by (cases "select_students_by_telegramUserId db t")
     (simp_all add: deleteHomeworkTool_def select_students_with_isActive
        select_homework_with_isActive delete_homework_with_isActive split: list.splits)

text \<open>
  C4 (amended). Homework Add, View and Delete do not read \<open>isActive\<close>: on two stores
  that differ only in the \<open>isActive\<close> column of their student rows, each of the three
  returns the same result (and Add and Delete make the same change to the homework
  table). A deactivated student is therefore treated by them exactly as the same
  student when active; only verification refuses a deactivated student.
\<close>

theorem homework_tools_ignore_isActive:
  "addHomeworkTool nd e (with_isActive f db) t ttl d s due g =
     (case addHomeworkTool nd e db t ttl d s due g of (r, db') \<Rightarrow> (r, with_isActive f db'))
   \<and> viewHomeworkTool e (with_isActive f db) t g lim = viewHomeworkTool e db t g lim
   \<and> deleteHomeworkTool e (with_isActive f db) t i =
     (case deleteHomeworkTool e db t i of (r, db') \<Rightarrow> (r, with_isActive f db'))"
  by (simp only: add_ignores_isActive view_ignores_isActive delete_ignores_isActive simp_thms)

theorem homework_tools_ignore_isActive_witness:
  "fst (addHomeworkTool demo_newDate demo_env (with_isActive (\<lambda>r. Some True) demo_store) 103
          ''Quiz'' None None None None)
     = fst (addHomeworkTool demo_newDate demo_env demo_store 103 ''Quiz'' None None None None)
   \<and> viewHomeworkTool demo_env (with_isActive (\<lambda>r. Some True) demo_store) 103 None 10
     = viewHomeworkTool demo_env demo_store 103 None 10
   \<and> fst (deleteHomeworkTool demo_env (with_isActive (\<lambda>r. Some True) demo_store) 103 2)
     = fst (deleteHomeworkTool demo_env demo_store 103 2)"
  using homework_tools_ignore_isActive[of demo_newDate demo_env "\<lambda>r. Some True" demo_store 103
          "''Quiz''" None None None None 10 2]
  by (simp add: case_prod_beta)








text \<open>
  For an admin or owner the requested group, when truthy, is the one that is read.
\<close>

lemma view_admin_honours_groupId:
  assumes "caller \<in> set (students db)"
    and "distinct (map telegramUserId (students db))"
    and "isAdmin (accessLevel caller)" and "X \<noteq> 0"
    and "truthy_str (DATABASE_URL e)" and "faults e \<inter> {0, 1, 2} = {}"
  shows "homeworkList (viewHomeworkTool e db (telegramUserId caller) (Some X) lim)
           = map (view_item db) (fetch_homework db X lim)"
proof -
  have sel: "select_students_by_telegramUserId db (telegramUserId caller) = [caller]"
    using assms(1,2) by (simp add: select_by_telegramUserId_unique)
  from assms(6) have "0 \<notin> faults e" "1 \<notin> faults e" "2 \<notin> faults e" by auto
  with sel assms(3-5) show ?thesis
    by (simp add: viewHomeworkTool_def view_targetGroupId_def truthy_num_def Let_def)
qed

text \<open>
  C7. An unparseable due date is treated as absent. When the platform's parser rejects
  the string, Add returns exactly what it returns without a due date, in every
  environment and store. In particular, for a caller with access level monitor, admin or
  owner whose target group (the requested one, else the caller's own) is non-zero and
  exists, with the connection string set, no store round trip failing and the homework
  sequence ahead of the ids in use, the call succeeds, the returned homework has
  \<open>dueDate = null\<close>, and the homework table gains one row, with \<open>dueDate = NULL\<close>.
\<close>

theorem add_unparseable_dueDate:
  assumes bad: "newDate s = None"
  shows "addHomeworkTool newDate e db t ttl d sj (Some s) g
           = addHomeworkTool newDate e db t ttl d sj None g
         \<and> (caller \<in> set (students db) \<and> distinct (map telegramUserId (students db))
              \<and> t = telegramUserId caller
              \<and> hasPermission (accessLevel caller)
              \<and> or_number g (s_groupId caller) = Some tg \<and> tg \<noteq> 0
              \<and> tg \<in> g_id ` set (groups db)
              \<and> homework_id_seq db \<notin> h_id ` set (homework db)
              \<and> truthy_str (DATABASE_URL e) \<and> faults e \<inter> {0, 1, 2, 3} = {}
            \<longrightarrow> (case addHomeworkTool newDate e db t ttl d sj (Some s) g of (r, db') \<Rightarrow>
                  add_success r
                  \<and> map_option ah_dueDate (add_homework r) = Some None
                  \<and> homework db' = homework db @
                       [\<lparr> h_id = homework_id_seq db, title = ttl,
                          description = or_str d None, dueDate = None,
                          subject = or_str sj None, h_groupId = Some tg,
                          createdBy = Some (s_id caller),
                          h_createdAt = Some (now e), h_updatedAt = Some (now e) \<rparr>]))"
proof (intro conjI impI)
  have pd: "parsedDueDate newDate (Some s) = parsedDueDate newDate None"
    using bad by (simp add: parsedDueDate_def)
  show same: "addHomeworkTool newDate e db t ttl d sj (Some s) g
           = addHomeworkTool newDate e db t ttl d sj None g"
    unfolding addHomeworkTool_def pd ..
  assume h: "caller \<in> set (students db) \<and> distinct (map telegramUserId (students db))
              \<and> t = telegramUserId caller
              \<and> hasPermission (accessLevel caller)
              \<and> or_number g (s_groupId caller) = Some tg \<and> tg \<noteq> 0
              \<and> tg \<in> g_id ` set (groups db)
              \<and> homework_id_seq db \<notin> h_id ` set (homework db)
              \<and> truthy_str (DATABASE_URL e) \<and> faults e \<inter> {0, 1, 2, 3} = {}"
  then have sel: "select_students_by_telegramUserId db t = [caller]"
    by (simp add: select_by_telegramUserId_unique)
  from h have nf: "0 \<notin> faults e" "1 \<notin> faults e" "2 \<notin> faults e" "3 \<notin> faults e" by auto
  from h have fkg: "fk_groups db (Some tg)" by (simp add: fk_groups_def)
  from h obtain grp rest where grp: "select_groups_by_id db (Some tg) = grp # rest"
    using take1_filter_nonempty[of tg g_id "groups db"]
    by (auto simp: select_groups_by_id_def neq_Nil_conv)
  from h have fks: "fk_students db (Some (s_id caller))" by (auto simp: fk_students_def)
  from h sel nf fkg fks bad grp
  show "case addHomeworkTool newDate e db t ttl d sj (Some s) g of (r, db') \<Rightarrow>
                  add_success r
                  \<and> map_option ah_dueDate (add_homework r) = Some None
                  \<and> homework db' = homework db @
                       [\<lparr> h_id = homework_id_seq db, title = ttl,
                          description = or_str d None, dueDate = None,
                          subject = or_str sj None, h_groupId = Some tg,
                          createdBy = Some (s_id caller),
                          h_createdAt = Some (now e), h_updatedAt = Some (now e) \<rparr>]"
    by (simp add: addHomeworkTool_def insert_homework_def parsedDueDate_def Let_def)
qed

theorem add_unparseable_dueDate_witness:
  "demo_newDate ''next friday'' = None
   \<and> demo_monitor \<in> set (students demo_store)
   \<and> hasPermission (accessLevel demo_monitor)
   \<and> or_number None (s_groupId demo_monitor) = Some 1
   \<and> (1::int) \<in> g_id ` set (groups demo_store)
   \<and> add_success (fst (addHomeworkTool demo_newDate demo_env demo_store 101 ''Quiz'' None None
                         (Some ''next friday'') None))
   \<and> map_option ah_dueDate
        (add_homework (fst (addHomeworkTool demo_newDate demo_env demo_store 101 ''Quiz'' None
                              None (Some ''next friday'') None))) = Some None
   \<and> map dueDate
        (homework (snd (addHomeworkTool demo_newDate demo_env demo_store 101 ''Quiz'' None None
                          (Some ''next friday'') None))) = [None, Some 900, None]"
proof -
  have bad: "demo_newDate ''next friday'' = None" by (simp add: demo_newDate_def)
  have a: "demo_monitor \<in> set (students demo_store)" by (simp add: demo_store_def)
  have t: "(101::int) = telegramUserId demo_monitor" by (simp add: demo_defs)
  have p: "hasPermission (accessLevel demo_monitor)" by (simp add: eval_defs)
  have g: "or_number None (s_groupId demo_monitor) = Some 1" by (simp add: eval_defs)
  have g0: "(1::int) \<noteq> 0" by simp
  have ge: "(1::int) \<in> g_id ` set (groups demo_store)" by (simp add: demo_defs)
  have fresh: "homework_id_seq demo_store \<notin> h_id ` set (homework demo_store)"
    by (simp add: demo_defs)
  have url: "truthy_str (DATABASE_URL demo_env)" by (simp add: eval_defs)
  have nf: "faults demo_env \<inter> {0, 1, 2, 3} = {}" by (simp add: demo_env_def)
  have hw: "map dueDate (homework demo_store) = [None, Some 900]" by (simp add: demo_defs)
  have hyps: "demo_monitor \<in> set (students demo_store)
      \<and> distinct (map telegramUserId (students demo_store))
      \<and> 101 = telegramUserId demo_monitor
      \<and> hasPermission (accessLevel demo_monitor)
      \<and> or_number None (s_groupId demo_monitor) = Some 1 \<and> (1::int) \<noteq> 0
      \<and> 1 \<in> g_id ` set (groups demo_store)
      \<and> homework_id_seq demo_store \<notin> h_id ` set (homework demo_store)
      \<and> truthy_str (DATABASE_URL demo_env) \<and> faults demo_env \<inter> {0, 1, 2, 3} = {}"
    by (intro conjI a demo_students_unique t p g g0 ge fresh url nf)
  have "case addHomeworkTool demo_newDate demo_env demo_store 101 ''Quiz'' None None
               (Some ''next friday'') None of
          (r, db') \<Rightarrow>
            add_success r \<and> map_option ah_dueDate (add_homework r) = Some None
            \<and> homework db' = homework demo_store @
                 [\<lparr> h_id = homework_id_seq demo_store, title = ''Quiz'',
                    description = or_str None None, dueDate = None,
                    subject = or_str None None, h_groupId = Some 1,
                    createdBy = Some (s_id demo_monitor),
                    h_createdAt = Some (now demo_env), h_updatedAt = Some (now demo_env) \<rparr>]"
    by (rule add_unparseable_dueDate[where newDate = demo_newDate and s = "''next friday''"
      and e = demo_env and db = demo_store and t = 101 and ttl = "''Quiz''" and d = None
      and sj = None and g = None and caller = demo_monitor and tg = 1,
      OF bad, THEN conjunct2, THEN mp, OF hyps])
  then have "add_success (fst (addHomeworkTool demo_newDate demo_env demo_store 101 ''Quiz''
                                 None None (Some ''next friday'') None))
      \<and> map_option ah_dueDate
          (add_homework (fst (addHomeworkTool demo_newDate demo_env demo_store 101 ''Quiz'' None
                                None (Some ''next friday'') None))) = Some None
      \<and> map dueDate
          (homework (snd (addHomeworkTool demo_newDate demo_env demo_store 101 ''Quiz'' None None
                            (Some ''next friday'') None))) = [None, Some 900, None]"
    using hw by (simp add: case_prod_beta)
  with bad a p g ge show ?thesis by simp
qed

text \<open>
  C8. In a store whose \<open>telegramUserId\<close> column is unique: Delete by a caller of
  access level student, for any homework id (an existing one in particular), returns
  \<open>success = false\<close> in every environment and leaves the store, hence the row,
  untouched; the text is the no-right-to-delete text whenever the connection string is
  set and the select and \<open>client.end()\<close> do not fail. Delete by a monitor, admin or
  owner of an id that no homework row has returns \<open>success = false\<close> with the store
  unchanged, and the not-found text whenever the connection string is set and no round
  trip fails.
\<close>

theorem delete_gating:
  assumes "caller \<in> set (students db)"
    and "distinct (map telegramUserId (students db))"
  shows "(accessLevel caller = Some Student \<longrightarrow>
            deleteHomeworkTool e db (telegramUserId caller) hid =
              (delete_failure (if \<not> truthy_str (DATABASE_URL e) then HwDbConnectionError
                               else if 0 \<in> faults e \<or> 1 \<in> faults e then DeleteError
                               else NoRightToDelete), db))
       \<and> (hasPermission (accessLevel caller) \<and> hid \<notin> h_id ` set (homework db) \<longrightarrow>
            deleteHomeworkTool e db (telegramUserId caller) hid =
              (delete_failure (if \<not> truthy_str (DATABASE_URL e) then HwDbConnectionError
                               else if 0 \<in> faults e \<or> 1 \<in> faults e \<or> 2 \<in> faults e
                               then DeleteError
                               else HomeworkNotFound), db))"
proof -
  have sel: "select_students_by_telegramUserId db (telegramUserId caller) = [caller]"
    using assms by (simp add: select_by_telegramUserId_unique)
  have none: "select_homework_by_id db hid = []" if "hid \<notin> h_id ` set (homework db)"
    using that by (auto simp: select_homework_by_id_def filter_empty_conv)
  show ?thesis
    using sel none
    by (auto simp: deleteHomeworkTool_def hasPermission_def level_or_student_def)
qed

theorem delete_gating_witness:
  "demo_student \<in> set (students demo_store) \<and> accessLevel demo_student = Some Student
   \<and> (1::int) \<in> h_id ` set (homework demo_store)
   \<and> deleteHomeworkTool demo_env demo_store 102 1
       = (delete_failure NoRightToDelete, demo_store)
   \<and> demo_monitor \<in> set (students demo_store) \<and> hasPermission (accessLevel demo_monitor)
   \<and> (99::int) \<notin> h_id ` set (homework demo_store)
   \<and> deleteHomeworkTool demo_env demo_store 101 99
       = (delete_failure HomeworkNotFound, demo_store)"
proof -
  have a1: "demo_student \<in> set (students demo_store)"
    and a2: "demo_monitor \<in> set (students demo_store)" by (simp_all add: demo_store_def)
  have l: "accessLevel demo_student = Some Student" by (simp add: demo_defs)
  have p: "hasPermission (accessLevel demo_monitor)" by (simp add: eval_defs)
  have e1: "(1::int) \<in> h_id ` set (homework demo_store)"
    and e99: "(99::int) \<notin> h_id ` set (homework demo_store)" by (simp_all add: demo_defs)
  have t: "telegramUserId demo_student = 102" "telegramUserId demo_monitor = 101"
    by (simp_all add: demo_defs)
  have env: "truthy_str (DATABASE_URL demo_env)" "0 \<notin> faults demo_env" "1 \<notin> faults demo_env"
      "2 \<notin> faults demo_env"
    by (simp_all add: eval_defs)
  from delete_gating[OF a1 demo_students_unique, where e = demo_env and hid = 1]
    delete_gating[OF a2 demo_students_unique, where e = demo_env and hid = 99]
    a1 a2 l p e1 e99 env
  show ?thesis by (simp add: t)
qed

text \<open>
  C10. Delete checks the caller's tier only. For a caller with access level monitor,
  admin or owner and any homework row of the store, whatever the caller's group and the
  row's group are, with unique \<open>telegramUserId\<close> and homework \<open>id\<close> columns, the
  connection string set and no store round trip failing, Delete succeeds, names the
  row's title in its text, and the store afterwards has no row with that id. The
  theorem has no hypothesis about either group.
\<close>

theorem delete_without_group_check:
  assumes "caller \<in> set (students db)"
    and "distinct (map telegramUserId (students db))"
    and "hasPermission (accessLevel caller)"
    and "hw \<in> set (homework db)"
    and "distinct (map h_id (homework db))"
    and "truthy_str (DATABASE_URL e)"
    and "faults e \<inter> {0, 1, 2, 3} = {}"
  shows "deleteHomeworkTool e db (telegramUserId caller) (h_id hw) =
           (\<lparr> del_success = True, del_message = HomeworkDeleted (title hw) \<rparr>,
            delete_homework db (h_id hw))
         \<and> h_id hw \<notin> h_id ` set (homework (delete_homework db (h_id hw)))"
proof -
  have sel: "select_students_by_telegramUserId db (telegramUserId caller) = [caller]"
    using assms(1,2) by (simp add: select_by_telegramUserId_unique)
  have found: "select_homework_by_id db (h_id hw) = [hw]"
    unfolding select_homework_by_id_def using assms(5,4) by (rule take1_filter_unique)
  from assms(7) have nf: "0 \<notin> faults e" "1 \<notin> faults e" "2 \<notin> faults e" "3 \<notin> faults e"
    by auto
  have gone: "h_id hw \<notin> h_id ` set (homework (delete_homework db (h_id hw)))"
    by (auto simp: delete_homework_def)
  from sel found nf assms(3,6) gone show ?thesis
    by (simp add: deleteHomeworkTool_def)
qed

theorem delete_without_group_check_witness:
  "demo_monitor \<in> set (students demo_store) \<and> hasPermission (accessLevel demo_monitor)
   \<and> s_groupId demo_monitor = Some 1
   \<and> demo_essay \<in> set (homework demo_store) \<and> h_groupId demo_essay = Some 2
   \<and> deleteHomeworkTool demo_env demo_store 101 1
       = (\<lparr> del_success = True, del_message = HomeworkDeleted ''Essay'' \<rparr>,
          demo_store\<lparr> homework := [demo_lab] \<rparr>)"
proof -
  have a: "demo_monitor \<in> set (students demo_store)" by (simp add: demo_store_def)
  have p: "hasPermission (accessLevel demo_monitor)" by (simp add: eval_defs)
  have hw: "demo_essay \<in> set (homework demo_store)" by (simp add: demo_store_def)
  have d: "distinct (map h_id (homework demo_store))" by (simp add: demo_defs)
  have url: "truthy_str (DATABASE_URL demo_env)" by (simp add: eval_defs)
  have nf: "faults demo_env \<inter> {0, 1, 2, 3} = {}" by (simp add: demo_env_def)
  have g: "s_groupId demo_monitor = Some 1" "h_groupId demo_essay = Some 2"
    by (simp_all add: demo_defs)
  have v: "telegramUserId demo_monitor = 101" "h_id demo_essay = 1" "title demo_essay = ''Essay''"
    "delete_homework demo_store 1 = demo_store\<lparr> homework := [demo_lab] \<rparr>"
    by (simp_all add: demo_defs delete_homework_def)
  from delete_without_group_check[OF a demo_students_unique p hw d url nf] a p hw g
  show ?thesis by (simp add: v)
qed

end
